theory Spec2Isabelle
  imports Complex_Main "HOL-Library.Sublist" "HOL-Library.Multiset" "HOL-Library.AList"
begin

section \<open>Errors, strings and the sparse count table\<close>

text \<open>
  The exceptions that the functions of \<^verbatim>\<open>eval_framework.py\<close> raise, or let
  through from the table library, are values of \<open>error\<close>. A function that can
  raise returns \<open>error + 'a\<close>, with \<open>Inl\<close> for the exception.

  Python floats are modelled by exact rationals: the arithmetic of the metrics is the
  arithmetic of the formulas, without rounding and without NaN (a NaN of pandas is the
  value \<open>None\<close> where it can arise).
\<close>

datatype value_error = CouldntParse string | EmptyAfterFiltering string

datatype error =
    UnknownIDError
  | IndexError
  | KeyError
  | TypeError
  | AttributeError
  | ZeroDivisionError
  | AssertionError
  | IOError
  | TableException
  | ValueError value_error

text \<open>
  Strings are lists of characters, each a code point below 256. \<open>isspace\<close> is
  Python's \<^verbatim>\<open>str.isspace\<close> on that range: the code points 9 to 13, 28 to 32,
  133 and 160.
\<close>

definition isspace :: "char \<Rightarrow> bool" where
  "isspace c =
     (let n = (of_char c :: nat)
      in (9 \<le> n \<and> n \<le> 13) \<or> (28 \<le> n \<and> n \<le> 32) \<or> n = 133 \<or> n = 160)"

text \<open>
  \<^verbatim>\<open>s.split()\<close>: the maximal runs of characters that are not whitespace, in
  order. The first argument is the run being read.
\<close>

fun split_ws :: "string \<Rightarrow> string \<Rightarrow> string list" where
  "split_ws w [] = (if w = [] then [] else [w])"
| "split_ws w (c # cs) =
     (if isspace c then (if w = [] then split_ws [] cs else w # split_ws [] cs)
      else split_ws (w @ [c]) cs)"

definition py_split_ws :: "string \<Rightarrow> string list" where
  "py_split_ws s = split_ws [] s"

text \<open>\<^verbatim>\<open>"".join(observation_id.split())\<close>\<close>

definition remove_whitespace :: "string \<Rightarrow> string" where
  "remove_whitespace s = concat (py_split_ws s)"

text \<open>
  The metadata of an observation is a dictionary (or \<^verbatim>\<open>None\<close>); the value under
  a key is \<^verbatim>\<open>None\<close>, a string, or a sequence of strings (the two shapes of a
  taxonomy annotation).
\<close>

datatype md_value = MdNone | MdStr string | MdSeq "string list"

type_synonym metadata = "(string \<times> md_value) list"

text \<open>
  Modelled from the spec: the sparse count table of the table library, which is not
  part of this repository, as the functions here read it. A table has its observations
  in order and its sample ids; an observation has its id, its metadata and its row of
  counts, one per sample in the order of the sample ids. The row is sparse: a count
  that is not stored is 0. The library keeps the ids of each axis unique.
\<close>

record observation =
  obs_id :: string
  obs_md :: "metadata option"
  obs_data :: "rat list"

record table =
  observations :: "observation list"
  sample_ids :: "string list"

definition observation_ids :: "table \<Rightarrow> string list" where
  "observation_ids t = map obs_id (observations t)"

definition cell :: "observation \<Rightarrow> nat \<Rightarrow> rat" where
  "cell ob j = (if j < length (obs_data ob) then obs_data ob ! j else 0)"

text \<open>\<^verbatim>\<open>table.is_empty()\<close>: no observation or no sample.\<close>

definition is_empty :: "table \<Rightarrow> bool" where
  "is_empty t = (observations t = [] \<or> sample_ids t = [])"

text \<open>\<^verbatim>\<open>table.index(id, axis)\<close>: the position of an id, or UnknownIDError.\<close>

fun position :: "string list \<Rightarrow> string \<Rightarrow> nat option" where
  "position [] x = None"
| "position (y # ys) x = (if x = y then Some 0 else map_option Suc (position ys x))"

definition index :: "string list \<Rightarrow> string \<Rightarrow> error + nat" where
  "index ids x = (case position ids x of None \<Rightarrow> Inl UnknownIDError | Some i \<Rightarrow> Inr i)"

text \<open>
  \<^verbatim>\<open>table[i, j]\<close>, which the library refuses on an empty table; an index outside
  the matrix is an IndexError.
\<close>

definition getitem :: "table \<Rightarrow> nat \<Rightarrow> nat \<Rightarrow> error + rat" where
  "getitem t i j =
     (if is_empty t \<or> i \<ge> length (observations t) \<or> j \<ge> length (sample_ids t)
      then Inl IndexError
      else Inr (cell (observations t ! i) j))"

text \<open>
  \<^verbatim>\<open>table.get_value_by_ids(obs_id, samp_id)\<close> is
  \<^verbatim>\<open>self[self.index(obs_id, 'observation'), self.index(samp_id, 'sample')]\<close>.
\<close>

definition get_value_by_ids :: "table \<Rightarrow> string \<Rightarrow> string \<Rightarrow> error + rat" where
  "get_value_by_ids t oid sid =
     (case index (observation_ids t) oid of
        Inl e \<Rightarrow> Inl e
      | Inr i \<Rightarrow>
          (case index (sample_ids t) sid of
             Inl e \<Rightarrow> Inl e
           | Inr j \<Rightarrow> getitem t i j))"

section \<open>Metric engine\<close>

subsection \<open>get_observed_observation_ids\<close>

text \<open>
  The sample to read: the one given, or the first sample id of the table
  (\<^verbatim>\<open>table.ids(axis="sample")[0]\<close>, an IndexError on a table without samples).
\<close>

definition default_sample :: "table \<Rightarrow> string option \<Rightarrow> error + string" where
  "default_sample t sample_id =
     (case sample_id of
        Some s \<Rightarrow> Inr s
      | None \<Rightarrow> (case sample_ids t of [] \<Rightarrow> Inl IndexError | s # _ \<Rightarrow> Inr s))"

text \<open>
  The loop over \<^verbatim>\<open>table.ids(axis="observation")\<close>; \<open>result\<close> is the list
  being appended to.
\<close>

fun observed_loop ::
  "table \<Rightarrow> string \<Rightarrow> bool \<Rightarrow> string list \<Rightarrow> string list \<Rightarrow> error + string list" where
  "observed_loop t sid ws_strip result [] = Inr result"
| "observed_loop t sid ws_strip result (observation_id # rest) =
     (case get_value_by_ids t observation_id sid of
        Inl e \<Rightarrow> Inl e
      | Inr v \<Rightarrow>
          observed_loop t sid ws_strip
            (if v > 0
             then result @ [if ws_strip then remove_whitespace observation_id
                            else observation_id]
             else result)
            rest)"

definition get_observed_observation_ids ::
  "table \<Rightarrow> string option \<Rightarrow> bool \<Rightarrow> error + string set" where
  "get_observed_observation_ids t sample_id ws_strip =
     (case default_sample t sample_id of
        Inl e \<Rightarrow> Inl e
      | Inr sid \<Rightarrow>
          (case observed_loop t sid ws_strip [] (observation_ids t) of
             Inl e \<Rightarrow> Inl e
           | Inr result \<Rightarrow> Inr (set result)))"

subsection \<open>compute_prf\<close>

text \<open>
  The division of Python 3 on numbers: the quotient, or a ZeroDivisionError when the
  divisor is zero.
\<close>

definition true_div :: "rat \<Rightarrow> rat \<Rightarrow> error + rat" where
  "true_div a b = (if b = 0 then Inl ZeroDivisionError else Inr (a / b))"

text \<open>
  The sizes of the intersection and of the two differences of the whitespace-stripped
  observed-id sets, and the three metrics from them.
\<close>

definition compute_prf ::
  "table \<Rightarrow> table \<Rightarrow> string option \<Rightarrow> string option \<Rightarrow> error + (rat \<times> rat \<times> rat)" where
  "compute_prf actual_table expected_table actual_sample_id expected_sample_id =
     (case get_observed_observation_ids actual_table actual_sample_id True of
        Inl e \<Rightarrow> Inl e
      | Inr actual_obs_ids \<Rightarrow>
     (case get_observed_observation_ids expected_table expected_sample_id True of
        Inl e \<Rightarrow> Inl e
      | Inr expected_obs_ids \<Rightarrow>
     (let tp = card (actual_obs_ids \<inter> expected_obs_ids);
          fp = card (actual_obs_ids - expected_obs_ids);
          fn = card (expected_obs_ids - actual_obs_ids)
      in if tp > 0
         then (case true_div (of_nat tp) (of_nat (tp + fp)) of
                 Inl e \<Rightarrow> Inl e
               | Inr p \<Rightarrow>
              (case true_div (of_nat tp) (of_nat (tp + fn)) of
                 Inl e \<Rightarrow> Inl e
               | Inr r \<Rightarrow>
              (case true_div (2 * p * r) (p + r) of
                 Inl e \<Rightarrow> Inl e
               | Inr f \<Rightarrow> Inr (p, r, f))))
         else Inr (0, 0, 0))))"

subsection \<open>get_actual_and_expected_vectors\<close>

text \<open>
  The value of one observation id in one table: 0.0 when \<^verbatim>\<open>table.index\<close> raises
  UnknownIDError (the \<^verbatim>\<open>except\<close> branch), the cell at the sample index otherwise
  (the \<^verbatim>\<open>else\<close> branch, whose own exceptions are not caught).
\<close>

definition value_or_zero :: "table \<Rightarrow> string \<Rightarrow> nat \<Rightarrow> error + rat" where
  "value_or_zero t obs_id' sample_idx =
     (case index (observation_ids t) obs_id' of
        Inl e \<Rightarrow> (if e = UnknownIDError then Inr 0 else Inl e)
      | Inr obs_idx \<Rightarrow> getitem t obs_idx sample_idx)"

text \<open>The loop over \<^verbatim>\<open>all_obs_ids\<close>, appending to the two vectors.\<close>

fun vectors_loop ::
  "table \<Rightarrow> table \<Rightarrow> nat \<Rightarrow> nat \<Rightarrow> rat list \<Rightarrow> rat list \<Rightarrow> string list \<Rightarrow>
   error + (rat list \<times> rat list)" where
  "vectors_loop a e ai ei actual_vector expected_vector [] =
     Inr (actual_vector, expected_vector)"
| "vectors_loop a e ai ei actual_vector expected_vector (obs_id' # rest) =
     (case value_or_zero a obs_id' ai of
        Inl err \<Rightarrow> Inl err
      | Inr actual_value \<Rightarrow>
          (case value_or_zero e obs_id' ei of
             Inl err \<Rightarrow> Inl err
           | Inr expected_value \<Rightarrow>
               vectors_loop a e ai ei (actual_vector @ [actual_value])
                 (expected_vector @ [expected_value]) rest))"

text \<open>
  \<^verbatim>\<open>actual_sample_idx\<close> and \<^verbatim>\<open>expected_sample_idx\<close>: 0 when no sample id is
  given, the index of the sample id otherwise.
\<close>

definition sample_idx :: "table \<Rightarrow> string option \<Rightarrow> error + nat" where
  "sample_idx t sample_id =
     (case sample_id of None \<Rightarrow> Inr 0 | Some s \<Rightarrow> index (sample_ids t) s)"

text \<open>
  \<^verbatim>\<open>list(actual_obs_ids | expected_obs_ids)\<close> lists the union in the iteration
  order of a Python set, which the language leaves open; the order is the parameter
  \<open>list_of\<close>, a function from the set to a list of its elements.
\<close>

definition get_actual_and_expected_vectors ::
  "(string set \<Rightarrow> string list) \<Rightarrow> table \<Rightarrow> table \<Rightarrow> string option \<Rightarrow> string option \<Rightarrow>
   error + (rat list \<times> rat list)" where
  "get_actual_and_expected_vectors list_of actual_table expected_table
       actual_sample_id expected_sample_id =
     (case get_observed_observation_ids actual_table actual_sample_id False of
        Inl err \<Rightarrow> Inl err
      | Inr actual_obs_ids \<Rightarrow>
     (case get_observed_observation_ids expected_table expected_sample_id False of
        Inl err \<Rightarrow> Inl err
      | Inr expected_obs_ids \<Rightarrow>
     (let all_obs_ids = list_of (actual_obs_ids \<union> expected_obs_ids)
      in
     (case sample_idx actual_table actual_sample_id of
        Inl err \<Rightarrow> Inl err
      | Inr actual_sample_idx \<Rightarrow>
     (case sample_idx expected_table expected_sample_id of
        Inl err \<Rightarrow> Inl err
      | Inr expected_sample_idx \<Rightarrow>
          vectors_loop actual_table expected_table actual_sample_idx expected_sample_idx
            [] [] all_obs_ids)))))"

text \<open>
  The count of an id in a sample of a table, 0 when the table does not have the id:
  the entry that the specification gives an aligned vector.
\<close>

definition count_or_zero :: "table \<Rightarrow> string \<Rightarrow> string \<Rightarrow> rat" where
  "count_or_zero t sid oid = (case get_value_by_ids t oid sid of Inr v \<Rightarrow> v | Inl _ \<Rightarrow> 0)"

section \<open>String operations of the standard library\<close>

text \<open>
  \<^verbatim>\<open>s.split(sep)\<close> for a one-character separator: the pieces between the
  separators, empty pieces kept (\<^verbatim>\<open>"".split(";")\<close> is \<^verbatim>\<open>[""]\<close>). The second
  argument is the piece being read.
\<close>

fun split_on :: "char \<Rightarrow> string \<Rightarrow> string \<Rightarrow> string list" where
  "split_on sep w [] = [w]"
| "split_on sep w (c # cs) =
     (if c = sep then w # split_on sep [] cs else split_on sep (w @ [c]) cs)"

definition py_split :: "char \<Rightarrow> string \<Rightarrow> string list" where
  "py_split sep s = split_on sep [] s"

text \<open>\<^verbatim>\<open>s.strip()\<close>: leading and trailing whitespace removed.\<close>

definition py_strip :: "string \<Rightarrow> string" where
  "py_strip s = rev (dropWhile isspace (rev (dropWhile isspace s)))"

text \<open>\<^verbatim>\<open>sep.join(xs)\<close>\<close>

fun py_join :: "string \<Rightarrow> string list \<Rightarrow> string" where
  "py_join sep [] = []"
| "py_join sep [x] = x"
| "py_join sep (x # y # ys) = x @ sep @ py_join sep (y # ys)"

text \<open>
  \<^verbatim>\<open>xs[:n]\<close> for a Python integer \<open>n\<close>: the first \<open>n\<close> elements, or all but the
  last \<open>-n\<close> when \<open>n\<close> is negative; never an error.
\<close>

definition slice_to :: "'a list \<Rightarrow> int \<Rightarrow> 'a list" where
  "slice_to xs n = (if 0 \<le> n then take (nat n) xs else take (length xs - nat (- n)) xs)"

text \<open>\<^verbatim>\<open>s.startswith(prefix)\<close> is \<^const>\<open>prefix\<close> on character lists.\<close>

definition startswith :: "string \<Rightarrow> string \<Rightarrow> bool" where
  "startswith s p = prefix p s"

text \<open>
  The keys of a Python dictionary filled in a loop, and \<^verbatim>\<open>Series.unique()\<close> of
  pandas: the values in the order of their first appearance. The
  first argument holds the values seen so far.
\<close>

fun unique_from :: "'a list \<Rightarrow> 'a list \<Rightarrow> 'a list" where
  "unique_from seen [] = []"
| "unique_from seen (x # xs) =
     (if x \<in> set seen then unique_from seen xs else x # unique_from (seen @ [x]) xs)"

definition unique :: "'a list \<Rightarrow> 'a list" where
  "unique xs = unique_from [] xs"

section \<open>Collapsing and filtering observations\<close>

subsection \<open>get_taxonomy_collapser\<close>

text \<open>
  The function \<open>f\<close> that \<^verbatim>\<open>get_taxonomy_collapser(level, md_key)\<close> returns, applied
  to an observation id and its metadata. Subscripting a metadata of \<^verbatim>\<open>None\<close> is
  a TypeError and a missing key a KeyError. On a string, \<^verbatim>\<open>split(';')\<close> succeeds; on a
  sequence it raises the AttributeError that the handler catches, and the sequence is
  read as it is; on \<^verbatim>\<open>None\<close> the handler's own loop raises a TypeError.
\<close>

definition get_taxonomy_collapser ::
  "int \<Rightarrow> string \<Rightarrow> string \<Rightarrow> metadata option \<Rightarrow> error + string" where
  "get_taxonomy_collapser level md_key id' md =
     (case md of
        None \<Rightarrow> Inl TypeError
      | Some d \<Rightarrow>
          (case map_of d md_key of
             None \<Rightarrow> Inl KeyError
           | Some (MdStr s) \<Rightarrow>
               (let levels = map py_strip (py_split CHR '';'' s)
                in Inr (py_join '';'' (slice_to levels (level + 1))))
           | Some (MdSeq ls) \<Rightarrow>
               (let levels = map py_strip ls
                in Inr (py_join '';'' (slice_to levels (level + 1))))
           | Some MdNone \<Rightarrow> Inl TypeError))"

subsection \<open>filter_table\<close>

text \<open>
  \<^verbatim>\<open>len(x)\<close> and \<^verbatim>\<open>';'.join(x)\<close> on a metadata value. On a string, \<^verbatim>\<open>len\<close>
  counts characters and \<^verbatim>\<open>join\<close> puts the separator between the characters; on
  \<^verbatim>\<open>None\<close> both raise a TypeError.
\<close>

definition md_len :: "md_value \<Rightarrow> error + nat" where
  "md_len v = (case v of MdNone \<Rightarrow> Inl TypeError | MdStr s \<Rightarrow> Inr (length s)
               | MdSeq ls \<Rightarrow> Inr (length ls))"

definition md_join :: "string \<Rightarrow> md_value \<Rightarrow> error + string" where
  "md_join sep v = (case v of MdNone \<Rightarrow> Inl TypeError
                    | MdStr s \<Rightarrow> Inr (py_join sep (map (\<lambda>c. [c]) s))
                    | MdSeq ls \<Rightarrow> Inr (py_join sep ls))"

text \<open>
  \<^verbatim>\<open>_taxa_to_keep\<close>: the allowlist joined with \<^verbatim>\<open>';'\<close> into one string, or
  \<^verbatim>\<open>None\<close> when no allowlist is given (the TypeError of joining \<^verbatim>\<open>None\<close> is
  caught).
\<close>

definition joined_taxa_to_keep :: "string list option \<Rightarrow> string option" where
  "joined_taxa_to_keep taxa_to_keep =
     (case taxa_to_keep of None \<Rightarrow> None | Some ts \<Rightarrow> Some (py_join '';'' ts))"

text \<open>
  The three tests of the predicate \<open>f\<close> inside \<^verbatim>\<open>filter_table\<close>, in the order
  in which the source evaluates them, each with the short-circuit order of its
  \<^verbatim>\<open>or\<close> and \<^verbatim>\<open>and\<close>.
\<close>

definition enough_levels ::
  "int option \<Rightarrow> string \<Rightarrow> metadata option \<Rightarrow> error + bool" where
  "enough_levels taxonomy_level md_key md =
     (case taxonomy_level of
        None \<Rightarrow> Inr True
      | Some l \<Rightarrow>
          (case md of
             None \<Rightarrow> Inl TypeError
           | Some d \<Rightarrow>
               (case map_of d md_key of
                  None \<Rightarrow> Inl KeyError
                | Some MdNone \<Rightarrow> Inr False
                | Some v \<Rightarrow>
                    (case md_len v of
                       Inl e \<Rightarrow> Inl e
                     | Inr n \<Rightarrow> Inr (int n \<ge> l + 1)))))"

definition allowed_taxa ::
  "string option \<Rightarrow> string \<Rightarrow> string \<Rightarrow> metadata option \<Rightarrow> error + bool" where
  "allowed_taxa taxa md_key id' md =
     (case taxa of
        None \<Rightarrow> Inr True
      | Some keep \<Rightarrow>
          if startswith id' keep then Inr True
          else (case md of
                  None \<Rightarrow> Inr False
                | Some d \<Rightarrow>
                    (case map_of d md_key of
                       None \<Rightarrow> Inr False
                     | Some v \<Rightarrow>
                         (case md_join '';'' v of
                            Inl e \<Rightarrow> Inl e
                          | Inr s \<Rightarrow> Inr (startswith s keep)))))"

definition filter_f ::
  "rat \<Rightarrow> int option \<Rightarrow> string option \<Rightarrow> string \<Rightarrow>
   rat list \<Rightarrow> string \<Rightarrow> metadata option \<Rightarrow> error + bool" where
  "filter_f min_count taxonomy_level taxa md_key data_vector id' md =
     (case enough_levels taxonomy_level md_key md of
        Inl e \<Rightarrow> Inl e
      | Inr enough \<Rightarrow>
          (case allowed_taxa taxa md_key id' md of
             Inl e \<Rightarrow> Inl e
           | Inr allowed \<Rightarrow>
               (let sufficient_count = (sum_list data_vector \<ge> min_count)
                in Inr (sufficient_count \<and> allowed \<and> enough))))"

text \<open>
  Modelled from the spec: the table library's filter by predicate on the observation
  axis, \<^verbatim>\<open>table.filter(f, axis='observation', inplace=False)\<close>. The predicate is
  applied to the observations in order, with the counts, the id and the metadata of
  each; an exception of the predicate ends the call; the new table holds the
  observations for which it was true (none, possibly).
\<close>

fun filter_observations ::
  "(rat list \<Rightarrow> string \<Rightarrow> metadata option \<Rightarrow> error + bool) \<Rightarrow>
   observation list \<Rightarrow> error + observation list" where
  "filter_observations f [] = Inr []"
| "filter_observations f (ob # obs) =
     (case f (obs_data ob) (obs_id ob) (obs_md ob) of
        Inl e \<Rightarrow> Inl e
      | Inr keep \<Rightarrow>
          (case filter_observations f obs of
             Inl e \<Rightarrow> Inl e
           | Inr kept \<Rightarrow> Inr (if keep then ob # kept else kept)))"

definition filter_table ::
  "table \<Rightarrow> rat \<Rightarrow> int option \<Rightarrow> string list option \<Rightarrow> string \<Rightarrow> error + table" where
  "filter_table t min_count taxonomy_level taxa_to_keep md_key =
     (case filter_observations
             (filter_f min_count taxonomy_level (joined_taxa_to_keep taxa_to_keep) md_key)
             (observations t) of
        Inl e \<Rightarrow> Inl e
      | Inr kept \<Rightarrow> Inr (t\<lparr>observations := kept\<rparr>))"

subsection \<open>Vocabulary for the properties of the loader\<close>

text \<open>
  The whitespace-stripped ranks of a taxonomy annotation, in either of its two shapes:
  the pieces of a \<^verbatim>\<open>';'\<close>-delimited string, or the elements of a sequence.
\<close>

definition stripped_ranks :: "md_value \<Rightarrow> string list" where
  "stripped_ranks v =
     (case v of
        MdStr s \<Rightarrow> map py_strip (py_split CHR '';'' s)
      | MdSeq ls \<Rightarrow> map py_strip ls
      | MdNone \<Rightarrow> [])"




section \<open>The results table\<close>

text \<open>
  A decoded parameter value is a number or a raw string. One row of the results table
  has the thirteen columns that \<open>compute_mock_results\<close> names, and the decoded
  parameter columns that the merge adds, each a column name with its value.
\<close>

datatype param_value = PNum rat | PStr string

record result_row =
  Dataset :: string
  Level :: int
  SampleID :: string
  Reference :: string
  Method :: string
  Parameters :: string
  Precision :: rat
  Recall :: rat
  F_measure :: rat
  Pearson_r :: rat
  Pearson_p :: rat
  Spearman_r :: rat
  Spearman_p :: rat
  param_columns :: "(string \<times> param_value list) list"

type_synonym dataframe = "result_row list"

section \<open>Files and the table library\<close>

text \<open>
  The file system that the functions read and write: the files by path, the
  directories, and what \<^verbatim>\<open>glob\<close> returns for a pattern. A file holds a sparse
  table, a persisted results table, or something else. Paths are absolute and
  normalised.
\<close>

datatype file_content = BiomFile table | ResultsFile dataframe | OtherFile

record world =
  files :: "(string \<times> file_content) list"
  dirs :: "string list"
  glob :: "string \<Rightarrow> string list"

text \<open>\<^verbatim>\<open>os.path.exists(path)\<close>\<close>

definition path_exists :: "world \<Rightarrow> string \<Rightarrow> bool" where
  "path_exists w p = (map_of (files w) p \<noteq> None \<or> p \<in> set (dirs w))"

text \<open>
  Modelled from the spec: the table library's \<^verbatim>\<open>load_table\<close> (load by path), which
  is not part of this repository. A file that is not a sparse table is the parse
  failure, a ValueError; a path without a file is an IOError.
\<close>

definition load_table :: "world \<Rightarrow> string \<Rightarrow> error + table" where
  "load_table w table_fp =
     (case map_of (files w) table_fp of
        None \<Rightarrow> Inl IOError
      | Some (BiomFile t) \<Rightarrow> Inr t
      | Some _ \<Rightarrow> Inl (ValueError (CouldntParse [])))"

text \<open>
  Modelled from the spec: the table library's \<^verbatim>\<open>collapse\<close> on the observation
  axis with \<^verbatim>\<open>min_group_size=1\<close>. The collapse function gives each observation its
  group key (an exception of it ends the call); the groups come in the order of their
  first member; a group's id is its key, its counts are the sums of its members'
  counts, sample by sample, and its metadata lists the ids of its members.
\<close>

fun collapse_keys ::
  "(string \<Rightarrow> metadata option \<Rightarrow> error + string) \<Rightarrow> observation list \<Rightarrow>
   error + (string \<times> observation) list" where
  "collapse_keys f [] = Inr []"
| "collapse_keys f (ob # obs) =
     (case f (obs_id ob) (obs_md ob) of
        Inl e \<Rightarrow> Inl e
      | Inr k \<Rightarrow>
          (case collapse_keys f obs of
             Inl e \<Rightarrow> Inl e
           | Inr rest \<Rightarrow> Inr ((k, ob) # rest)))"

definition sum_counts :: "nat \<Rightarrow> observation list \<Rightarrow> rat list" where
  "sum_counts n members = map (\<lambda>j. sum_list (map (\<lambda>ob. cell ob j) members)) [0..<n]"

definition collapse ::
  "(string \<Rightarrow> metadata option \<Rightarrow> error + string) \<Rightarrow> table \<Rightarrow> error + table" where
  "collapse f t =
     (case collapse_keys f (observations t) of
        Inl e \<Rightarrow> Inl e
      | Inr keyed \<Rightarrow>
          Inr (t\<lparr>observations :=
                  map (\<lambda>k. let members = map snd (filter (\<lambda>(k', ob). k' = k) keyed)
                           in \<lparr>obs_id = k,
                               obs_md = Some [(''collapsed_ids'', MdSeq (map obs_id members))],
                               obs_data = sum_counts (length (sample_ids t)) members\<rparr>)
                      (unique (map fst keyed))\<rparr>))"

text \<open>
  Modelled from the spec: the table library's \<^verbatim>\<open>norm(axis='sample')\<close>. Each sample
  column is divided by its sum; a column that sums to zero is left as it is.
\<close>

definition column_sum :: "table \<Rightarrow> nat \<Rightarrow> rat" where
  "column_sum t j = sum_list (map (\<lambda>ob. cell ob j) (observations t))"

definition norm_samples :: "table \<Rightarrow> table" where
  "norm_samples t =
     t\<lparr>observations :=
         map (\<lambda>ob. ob\<lparr>obs_data :=
                        map (\<lambda>j. if column_sum t j = 0 then cell ob j
                                  else cell ob j / column_sum t j)
                            [0..<length (sample_ids t)]\<rparr>)
             (observations t)\<rparr>"

section \<open>The table loader: mount_observations\<close>

text \<open>
  The parse failure of the load is raised again as the ValueError of
  \<open>mount_observations\<close>, with the path. The filter runs when \<^verbatim>\<open>filter_obs\<close> is
  set, \<^verbatim>\<open>min_count > 0\<close> and an allowlist is given; a TableException or TypeError of
  the filter is caught and leaves the table as loaded; the table that is then empty is
  the ValueError "Table is empty after filtering". The errors of the collapse are
  raised again with their own class. The parameter \<^verbatim>\<open>clean_obs_ids\<close> is not read
  by the function and is left out.
\<close>

definition mount_observations ::
  "world \<Rightarrow> string \<Rightarrow> rat \<Rightarrow> int \<Rightarrow> string list option \<Rightarrow> string \<Rightarrow> bool \<Rightarrow> bool \<Rightarrow>
   error + table" where
  "mount_observations w table_fp min_count taxonomy_level taxa_to_keep md_key normalize'
       filter_obs =
     (case load_table w table_fp of
        Inl (ValueError _) \<Rightarrow> Inl (ValueError (CouldntParse table_fp))
      | Inl e \<Rightarrow> Inl e
      | Inr loaded \<Rightarrow>
     (case (if filter_obs \<and> min_count > 0 \<and> taxa_to_keep \<noteq> None
            then (case (case filter_table loaded min_count (Some taxonomy_level)
                               taxa_to_keep md_key of
                          Inl TableException \<Rightarrow> Inr loaded
                        | Inl TypeError \<Rightarrow> Inr loaded
                        | Inl e \<Rightarrow> Inl e
                        | Inr filtered \<Rightarrow> Inr filtered) of
                    Inl e \<Rightarrow> Inl e
                  | Inr t \<Rightarrow>
                      if is_empty t then Inl (ValueError (EmptyAfterFiltering table_fp))
                      else Inr t)
            else Inr loaded) of
        Inl e \<Rightarrow> Inl e
      | Inr t \<Rightarrow>
     (case collapse (get_taxonomy_collapser taxonomy_level md_key) t of
        Inl e \<Rightarrow> Inl e
      | Inr collapsed \<Rightarrow> Inr (if normalize' then norm_samples collapsed else collapsed))))"

section \<open>Aggregation and ranking\<close>

text \<open>
  \<^verbatim>\<open>Series.max()\<close> and \<^verbatim>\<open>Series.mad()\<close> (the mean absolute deviation around
  the mean). On an empty series both are NaN, here \<open>None\<close>; a comparison with NaN is
  false.
\<close>

definition mean :: "rat list \<Rightarrow> rat" where
  "mean xs = sum_list xs / of_nat (length xs)"

definition mad :: "rat list \<Rightarrow> rat" where
  "mad xs = mean (map (\<lambda>x. \<bar>x - mean xs\<bar>) xs)"

definition series_max :: "rat list \<Rightarrow> rat option" where
  "series_max xs = (case xs of [] \<Rightarrow> None | x # rest \<Rightarrow> Some (fold max rest x))"

definition series_mad :: "rat list \<Rightarrow> rat option" where
  "series_mad xs = (if xs = [] then None else Some (mad xs))"

text \<open>
  \<^verbatim>\<open>df.sort_values(by=metric, ascending=False)\<close>: the rows by descending metric.
  Rows of equal metric are kept in their order here; pandas leaves their order to its
  sorting algorithm.
\<close>

definition sort_values_desc :: "(result_row \<Rightarrow> rat) \<Rightarrow> dataframe \<Rightarrow> dataframe" where
  "sort_values_desc metric df = sort_key (\<lambda>r. - metric r) df"

subsection \<open>get_sample_to_top_params\<close>

text \<open>
  The body of the innermost loop: the rows of one method among the rows of a dataset
  and sample, their maximum and mean absolute deviation, and the \<^verbatim>\<open>Parameters\<close> of
  the rows at or above the maximum less the deviation.
\<close>

definition top_params ::
  "(result_row \<Rightarrow> rat) \<Rightarrow> dataframe \<Rightarrow> string \<Rightarrow> string list" where
  "top_params metric dataset_sid_results method =
     (let method_results = filter (\<lambda>r. Method r = method) dataset_sid_results
      in case series_max (map metric method_results) of
           None \<Rightarrow> []
         | Some max_metric_value \<Rightarrow>
             (case series_mad (map metric method_results) of
                None \<Rightarrow> []
              | Some mad_metric_value \<Rightarrow>
                  map Parameters
                    (filter (\<lambda>r. metric r \<ge> max_metric_value - mad_metric_value)
                       method_results)))"

text \<open>
  The metric and the dataset and sample columns are given by their accessors. The
  result is the dictionary of dictionaries that the loops build, in insertion order:
  for each dataset and each sample id of it, for each method of the table, the list of
  top parameters.
\<close>

definition get_sample_to_top_params ::
  "dataframe \<Rightarrow> (result_row \<Rightarrow> rat) \<Rightarrow> (result_row \<Rightarrow> string) \<Rightarrow> (result_row \<Rightarrow> string) \<Rightarrow>
   ((string \<times> string) \<times> (string \<times> string list) list) list" where
  "get_sample_to_top_params df metric sample_col dataset_col =
     (let sorted_df = sort_values_desc metric df
      in concat
           (map (\<lambda>dataset.
                   let dataset_df = filter (\<lambda>r. dataset_col r = dataset) sorted_df
                   in map (\<lambda>sid.
                             let dataset_sid_results =
                                   filter (\<lambda>r. sample_col r = sid) dataset_df
                             in ((dataset, sid),
                                 map (\<lambda>method.
                                        (method, top_params metric dataset_sid_results method))
                                   (unique (map Method sorted_df))))
                        (unique (map sample_col dataset_df)))
              (unique (map dataset_col sorted_df))))"

section \<open>Result locator\<close>

text \<open>
  \<^verbatim>\<open>os.path.join\<close> of relative parts and \<^verbatim>\<open>os.path.split\<close>, on POSIX paths.
\<close>

fun os_join :: "string \<Rightarrow> string list \<Rightarrow> string" where
  "os_join path [] = path"
| "os_join path (b # bs) =
     os_join (if path = [] \<or> last path = CHR ''/'' then path @ b
              else path @ ''/'' @ b) bs"

definition os_split :: "string \<Rightarrow> string \<times> string" where
  "os_split p =
     (let tail = rev (takeWhile (\<lambda>c. c \<noteq> CHR ''/'') (rev p));
          head = rev (dropWhile (\<lambda>c. c \<noteq> CHR ''/'') (rev p))
      in (if head \<noteq> [] \<and> \<not> list_all (\<lambda>c. c = CHR ''/'') head
          then rev (dropWhile (\<lambda>c. c = CHR ''/'') (rev head))
          else head,
          tail))"

text \<open>\<^verbatim>\<open>abspath\<close> returns an absolute, normalised path as it is.\<close>

definition abspath :: "string \<Rightarrow> string" where
  "abspath p = p"

text \<open>
  One located result: dataset id, reference id, method id, parameter id and the path
  of the table.
\<close>

type_synonym located = "string \<times> string \<times> string \<times> string \<times> string"

definition find_and_process_result_tables :: "world \<Rightarrow> string \<Rightarrow> located list" where
  "find_and_process_result_tables w start_dir =
     map (\<lambda>table_fp.
            let (param_dir, _) = os_split table_fp;
                (method_dir, param_id) = os_split param_dir;
                (reference_dir, method_id) = os_split method_dir;
                (dataset_dir, reference_id) = os_split reference_dir;
                (_, dataset_id) = os_split dataset_dir
            in (dataset_id, reference_id, method_id, param_id, abspath table_fp))
         (glob w (os_join start_dir [''*'', ''*'', ''*'', ''*'', ''table*biom'']))"

text \<open>
  \<open>filename\<close> is \<^verbatim>\<open>filename_pattern.format(level)\<close>, which is
  \<^verbatim>\<open>table.L6-taxa.biom\<close> with the defaults that every caller here uses.
\<close>

definition find_and_process_expected_tables ::
  "world \<Rightarrow> string \<Rightarrow> string \<Rightarrow> (string \<times> string \<times> string) list" where
  "find_and_process_expected_tables w start_dir filename =
     map (\<lambda>table_fp.
            let (expected_dir, _) = os_split table_fp;
                (reference_dir, _) = os_split expected_dir;
                (dataset_dir, reference_id) = os_split reference_dir;
                (_, dataset_id) = os_split dataset_dir
            in (dataset_id, reference_id, abspath table_fp))
         (glob w (os_join start_dir [''*'', ''*'', ''expected'', filename]))"

text \<open>
  The two-level dictionary \<^verbatim>\<open>results[dataset_id][reference_id]\<close>, keyed here by the
  pair; a later table of the same pair replaces the earlier one.
\<close>

definition get_expected_tables_lookup ::
  "world \<Rightarrow> string \<Rightarrow> ((string \<times> string) \<times> string) list" where
  "get_expected_tables_lookup w start_dir =
     fold (\<lambda>(dataset_id, reference_id, processed_table) results.
             AList.update (dataset_id, reference_id) processed_table results)
          (find_and_process_expected_tables w start_dir ''table.L6-taxa.biom'') []"

text \<open>
  \<^verbatim>\<open>seek_results\<close>: the assertion that each directory exists, then its tables.
\<close>

fun seek_results_loop ::
  "world \<Rightarrow> located list \<Rightarrow> string list \<Rightarrow> error + located list" where
  "seek_results_loop w results [] = Inr results"
| "seek_results_loop w results (results_dir # rest) =
     (if \<not> path_exists w results_dir then Inl AssertionError
      else seek_results_loop w (results @ find_and_process_result_tables w results_dir) rest)"

definition seek_results :: "world \<Rightarrow> string list \<Rightarrow> error + located list" where
  "seek_results w results_dirs = seek_results_loop w [] results_dirs"

section \<open>Evaluation orchestrator\<close>

text \<open>
  The collaborators that are not part of this repository: the iteration order of a
  Python set, the two correlation functions of the statistics library (each returns a
  coefficient and a p-value, or raises), and the shuffle of the random module.
\<close>

record collaborators =
  list_of_set :: "string set \<Rightarrow> string list"
  pearsonr :: "rat list \<Rightarrow> rat list \<Rightarrow> error + (rat \<times> rat)"
  spearmanr :: "rat list \<Rightarrow> rat list \<Rightarrow> error + (rat \<times> rat)"
  shuffle :: "located list \<Rightarrow> located list"

subsection \<open>Parameter decoding\<close>

text \<open>
  \<^verbatim>\<open>float(e)\<close> for a string \<open>e\<close> of one character: a decimal digit parses, any
  other character is a ValueError (\<open>None\<close>).
\<close>

definition float_of_char :: "char \<Rightarrow> rat option" where
  "float_of_char e =
     (let n = (of_char e :: nat)
      in if 48 \<le> n \<and> n \<le> 57 then Some (of_nat (n - 48)) else None)"

text \<open>
  The loop \<^verbatim>\<open>for e in v\<close> over one token \<open>v\<close> of the parameter id: \<open>e\<close> runs over
  the characters of the token, and \<open>v_\<close> collects, for each, its float or the
  character itself.
\<close>

definition decode_token :: "string \<Rightarrow> param_value list" where
  "decode_token v =
     fold (\<lambda>e v'. case float_of_char e of
                      Some x \<Rightarrow> v' @ [PNum x]
                    | None \<Rightarrow> v' @ [PStr [e]])
          v []"

text \<open>
  The loop over \<^verbatim>\<open>zip(param_ids[method_id], params.split(':'))\<close>, filling the
  dictionary of one method and parameter id.
\<close>

definition decode_params :: "string list \<Rightarrow> string \<Rightarrow> (string \<times> param_value list) list" where
  "decode_params names params =
     fold (\<lambda>(k, v) entry. AList.update k (decode_token v) entry)
          (zip names (py_split CHR '':'' params)) []"

text \<open>The built-in parameter names of each method.\<close>

definition default_param_ids :: "(string \<times> string list) list" where
  "default_param_ids =
     [(''rdp'', [''confidence'']),
      (''blast'', [''e-value'']),
      (''sortmerna'', [''min consensus fraction'', ''similarity'', ''best N alignments'',
                      ''coverage'', ''e value'']),
      (''sortmerna-w16'', [''min consensus fraction'', ''similarity'', ''best N alignments'',
                          ''coverage'', ''e value'']),
      (''uclust'', [''min consensus fraction'', ''similarity'', ''max accepts'']),
      (''vsearch'', [''min consensus fraction'', ''similarity'', ''max accepts''])]"

text \<open>\<^verbatim>\<open>d.update(other)\<close> on dictionaries.\<close>

definition dict_update :: "('k \<times> 'v) list \<Rightarrow> ('k \<times> 'v) list \<Rightarrow> ('k \<times> 'v) list" where
  "dict_update d other = fold (\<lambda>(k, v) acc. AList.update k v acc) other d"

subsection \<open>compute_mock_results\<close>

text \<open>
  The body of the loop over the samples of the actual table. A ZeroDivisionError of
  \<open>compute_prf\<close> gives the three sentinels -1; every other exception ends the run.
\<close>

fun samples_loop ::
  "collaborators \<Rightarrow> table \<Rightarrow> table \<Rightarrow> string \<Rightarrow> int \<Rightarrow> string \<Rightarrow> string \<Rightarrow> string \<Rightarrow>
   dataframe \<Rightarrow> string list \<Rightarrow> error + dataframe" where
  "samples_loop c actual_table expected_table dataset_id taxonomy_level reference_id
       method_id params results [] = Inr results"
| "samples_loop c actual_table expected_table dataset_id taxonomy_level reference_id
       method_id params results (sample_id # rest) =
     (case (case compute_prf actual_table expected_table (Some sample_id) (Some sample_id) of
              Inl ZeroDivisionError \<Rightarrow> Inr (- 1, - 1, - 1)
            | Inl err \<Rightarrow> Inl err
            | Inr x \<Rightarrow> Inr x) of
        Inl err \<Rightarrow> Inl err
      | Inr (p, r, f) \<Rightarrow>
     (case get_actual_and_expected_vectors (list_of_set c) actual_table expected_table
             (Some sample_id) (Some sample_id) of
        Inl err \<Rightarrow> Inl err
      | Inr (actual_vector, expected_vector) \<Rightarrow>
     (case pearsonr c actual_vector expected_vector of
        Inl err \<Rightarrow> Inl err
      | Inr (pearson_r, pearson_p) \<Rightarrow>
     (case spearmanr c actual_vector expected_vector of
        Inl err \<Rightarrow> Inl err
      | Inr (spearman_r, spearman_p) \<Rightarrow>
          samples_loop c actual_table expected_table dataset_id taxonomy_level reference_id
            method_id params
            (results @
               [\<lparr>Dataset = dataset_id, Level = taxonomy_level, SampleID = sample_id,
                 Reference = reference_id, Method = method_id, Parameters = params,
                 Precision = p, Recall = r, F_measure = f,
                 Pearson_r = pearson_r, Pearson_p = pearson_p,
                 Spearman_r = spearman_r, Spearman_p = spearman_p,
                 param_columns = []\<rparr>])
            rest))))"

text \<open>
  The loop over the taxonomy levels: the expected table is mounted without filtering
  (\<^verbatim>\<open>min_count=0, filter_obs=False\<close>, metadata key \<^verbatim>\<open>'taxonomy'\<close>), the actual
  table with the caller's settings; both are normalised. Neither call stands in a
  \<^verbatim>\<open>try\<close>.
\<close>

fun levels_loop ::
  "world \<Rightarrow> collaborators \<Rightarrow> string \<Rightarrow> string \<Rightarrow> string \<Rightarrow> string \<Rightarrow> string \<Rightarrow> string \<Rightarrow>
   rat \<Rightarrow> string list option \<Rightarrow> string \<Rightarrow> dataframe \<Rightarrow> int list \<Rightarrow> error + dataframe" where
  "levels_loop w c expected_table_fp actual_table_fp dataset_id reference_id method_id params
       min_count taxa_to_keep md_key results [] = Inr results"
| "levels_loop w c expected_table_fp actual_table_fp dataset_id reference_id method_id params
       min_count taxa_to_keep md_key results (taxonomy_level # rest) =
     (case mount_observations w expected_table_fp 0 taxonomy_level taxa_to_keep ''taxonomy''
             True False of
        Inl err \<Rightarrow> Inl err
      | Inr expected_table \<Rightarrow>
     (case mount_observations w actual_table_fp min_count taxonomy_level taxa_to_keep md_key
             True True of
        Inl err \<Rightarrow> Inl err
      | Inr actual_table \<Rightarrow>
     (case samples_loop c actual_table expected_table dataset_id taxonomy_level reference_id
             method_id params results (sample_ids actual_table) of
        Inl err \<Rightarrow> Inl err
      | Inr results' \<Rightarrow>
          levels_loop w c expected_table_fp actual_table_fp dataset_id reference_id method_id
            params min_count taxa_to_keep md_key results' rest)))"

text \<open>
  The loop over the located results. A pair of dataset and reference without an
  expected table is a KeyError, and so is a method without an entry in \<open>param_ids\<close>.
\<close>

fun tables_loop ::
  "world \<Rightarrow> collaborators \<Rightarrow> ((string \<times> string) \<times> string) list \<Rightarrow>
   (string \<times> string list) list \<Rightarrow> int list \<Rightarrow> rat \<Rightarrow> string list option \<Rightarrow> string \<Rightarrow>
   dataframe \<Rightarrow> ((string \<times> string) \<times> (string \<times> param_value list) list) list \<Rightarrow>
   located list \<Rightarrow>
   error + (dataframe \<times> ((string \<times> string) \<times> (string \<times> param_value list) list) list)" where
  "tables_loop w c expected_table_lookup param_ids taxonomy_level_range min_count
       taxa_to_keep md_key results param_data [] = Inr (results, param_data)"
| "tables_loop w c expected_table_lookup param_ids taxonomy_level_range min_count
       taxa_to_keep md_key results param_data
       ((dataset_id, reference_id, method_id, params, actual_table_fp) # rest) =
     (case map_of expected_table_lookup (dataset_id, reference_id) of
        None \<Rightarrow> Inl KeyError
      | Some expected_table_fp \<Rightarrow>
     (case levels_loop w c expected_table_fp actual_table_fp dataset_id reference_id method_id
             params min_count taxa_to_keep md_key results taxonomy_level_range of
        Inl err \<Rightarrow> Inl err
      | Inr results' \<Rightarrow>
     (case map_of param_ids method_id of
        None \<Rightarrow> Inl KeyError
      | Some names \<Rightarrow>
          tables_loop w c expected_table_lookup param_ids taxonomy_level_range min_count
            taxa_to_keep md_key results'
            (AList.update (method_id, params) (decode_params names params) param_data)
            rest)))"

text \<open>
  \<^verbatim>\<open>result.merge(param_df.T, left_on=('Method', 'Parameters'), right_index=True)\<close>:
  each row with the decoded parameters of its method and parameter id as further
  columns (a name that the entry lacks is an empty cell).
\<close>

definition merge_params ::
  "dataframe \<Rightarrow> ((string \<times> string) \<times> (string \<times> param_value list) list) list \<Rightarrow> dataframe" where
  "merge_params results param_data =
     List.map_filter
       (\<lambda>row. case map_of param_data (Method row, Parameters row) of
                 None \<Rightarrow> None
               | Some entry \<Rightarrow> Some (row\<lparr>param_columns := entry\<rparr>))
       results"

text \<open>\<^verbatim>\<open>result.to_csv(results_fp, sep='\t')\<close>\<close>

definition to_csv :: "world \<Rightarrow> string \<Rightarrow> dataframe \<Rightarrow> world" where
  "to_csv w results_fp result = w\<lparr>files := AList.update results_fp (ResultsFile result) (files w)\<rparr>"

text \<open>
  The function starts by binding \<^verbatim>\<open>new_param_ids = {}\<close>, so the argument of that
  name is not read. It returns the results table and the file system, which has the
  persisted table when the run reached its end.
\<close>

definition compute_mock_results ::
  "world \<Rightarrow> collaborators \<Rightarrow> located list \<Rightarrow> ((string \<times> string) \<times> string) list \<Rightarrow> string \<Rightarrow>
   int list \<Rightarrow> rat \<Rightarrow> string list option \<Rightarrow> string \<Rightarrow> (string \<times> string list) list option \<Rightarrow>
   (error + dataframe) \<times> world" where
  "compute_mock_results w c result_tables expected_table_lookup results_fp
       taxonomy_level_range min_count taxa_to_keep md_key new_param_ids =
     (let results = [];
          new_param_ids = [];
          param_data = [];
          param_ids = dict_update default_param_ids new_param_ids
      in case tables_loop w c expected_table_lookup param_ids taxonomy_level_range min_count
                taxa_to_keep md_key results param_data result_tables of
           Inl err \<Rightarrow> (Inl err, w)
         | Inr (results, param_data) \<Rightarrow>
             (let result = merge_params results param_data
              in (Inr result, to_csv w results_fp result)))"

subsection \<open>evaluate_results\<close>

text \<open>
  \<^verbatim>\<open>pd.DataFrame.from_csv(results_fp, sep='\t')\<close>. The persisted form of a results
  table is the table; the layout of the text file is not modelled.
\<close>

definition from_csv :: "world \<Rightarrow> string \<Rightarrow> error + dataframe" where
  "from_csv w results_fp =
     (case map_of (files w) results_fp of
        None \<Rightarrow> Inl IOError
      | Some (ResultsFile df) \<Rightarrow> Inr df
      | Some _ \<Rightarrow> Inl (ValueError (CouldntParse results_fp)))"

text \<open>
  The located results are sought, and the assertion on the directories made, before the
  output path is looked at. \<^verbatim>\<open>force is True\<close> is the flag \<open>force\<close>; the notices
  that the cached branch prints are left out.
\<close>

definition evaluate_results ::
  "world \<Rightarrow> collaborators \<Rightarrow> string list \<Rightarrow> string \<Rightarrow> string \<Rightarrow> int list \<Rightarrow> rat \<Rightarrow>
   string list option \<Rightarrow> string \<Rightarrow> (string \<times> string list) list option \<Rightarrow> bool \<Rightarrow> int \<Rightarrow> bool \<Rightarrow>
   (error + dataframe) \<times> world" where
  "evaluate_results w c results_dirs expected_results_dir results_fp taxonomy_level_range
       min_count taxa_to_keep md_key new_param_ids subsample size' force =
     (case seek_results w results_dirs of
        Inl err \<Rightarrow> (Inl err, w)
      | Inr found \<Rightarrow>
          (let results = (if subsample then slice_to (shuffle c found) size' else found);
               expected_tables = get_expected_tables_lookup w expected_results_dir
           in if \<not> path_exists w results_fp \<or> force
              then compute_mock_results w c results expected_tables results_fp
                     taxonomy_level_range min_count taxa_to_keep md_key new_param_ids
              else (from_csv w results_fp, w)))"

section \<open>Example inputs\<close>

definition whitespace_table :: table where
  "whitespace_table = \<lparr>observations = [\<lparr>obs_id = ''k  __1'', obs_md = None, obs_data = [3, 0]\<rparr>,
                          \<lparr>obs_id = ''k__2'', obs_md = None, obs_data = [0, 2]\<rparr>,
                          \<lparr>obs_id = ''k__1'', obs_md = None, obs_data = [1, 1]\<rparr>],
          sample_ids = [''S1'', ''S2'']\<rparr>"

definition tax :: "string list \<Rightarrow> metadata option" where
  "tax ls = Some [(''taxonomy'', MdSeq ls)]"


definition actual_counts :: table where
  "actual_counts = \<lparr>observations = [\<lparr>obs_id = ''A;B'', obs_md = None, obs_data = [3]\<rparr>,
                          \<lparr>obs_id = ''A;C'', obs_md = None, obs_data = [1]\<rparr>,
                          \<lparr>obs_id = ''A;D'', obs_md = None, obs_data = [0]\<rparr>],
          sample_ids = [''S1'']\<rparr>"

definition expected_counts :: table where
  "expected_counts = \<lparr>observations = [\<lparr>obs_id = ''A;B'', obs_md = None, obs_data = [1]\<rparr>,
                          \<lparr>obs_id = ''A;E'', obs_md = None, obs_data = [2]\<rparr>],
          sample_ids = [''S1'']\<rparr>"

definition list_among :: "string list \<Rightarrow> string set \<Rightarrow> string list" where
  "list_among candidates S = filter (\<lambda>x. x \<in> S) candidates"

definition score_row :: "string \<Rightarrow> string \<Rightarrow> string \<Rightarrow> string \<Rightarrow> rat \<Rightarrow> result_row" where
  "score_row dataset sid method params f =
     \<lparr>Dataset = dataset, Level = 6, SampleID = sid, Reference = ''gg'', Method = method,
      Parameters = params, Precision = 0, Recall = 0, F_measure = f, Pearson_r = 0,
      Pearson_p = 0, Spearman_r = 0, Spearman_p = 0, param_columns = []\<rparr>"

definition three_scores :: dataframe where
  "three_scores = [score_row ''mock-1'' ''S1'' ''M'' ''p3'' (1/2),
          score_row ''mock-1'' ''S1'' ''M'' ''p1'' (9/10),
          score_row ''mock-1'' ''S1'' ''M'' ''p2'' (17/20)]"

text \<open>
  A file system with two located results for the dataset \<^verbatim>\<open>mock-1\<close> and the reference
  \<^verbatim>\<open>gg\<close> and their expected table, and stand-ins for the collaborators.
\<close>

definition obs_path :: string where "obs_path = ''/r/mock-1/gg/uclust/0.8:0.97:3/table.biom''"
definition rich_path :: string where "rich_path = ''/r/mock-1/gg/rdp/0.5/table.biom''"
definition exp_path :: string where "exp_path = ''/e/mock-1/gg/expected/table.L6-taxa.biom''"

definition mock_observed_table :: table where
  "mock_observed_table =
     \<lparr>observations = [\<lparr>obs_id = ''o1'', obs_md = tax [''A'', ''B''], obs_data = [3]\<rparr>,
                      \<lparr>obs_id = ''o2'', obs_md = tax [''A'', ''C''], obs_data = [1]\<rparr>],
      sample_ids = [''S1'']\<rparr>"

definition mock_rich_table :: table where
  "mock_rich_table =
     \<lparr>observations = [\<lparr>obs_id = ''o1'', obs_md = tax [''A'', ''B''], obs_data = [30]\<rparr>,
                      \<lparr>obs_id = ''o2'', obs_md = tax [''A'', ''C''], obs_data = [10]\<rparr>],
      sample_ids = [''S1'']\<rparr>"

definition mock_expected_table :: table where
  "mock_expected_table =
     \<lparr>observations = [\<lparr>obs_id = ''e1'', obs_md = tax [''A'', ''B''], obs_data = [1]\<rparr>],
      sample_ids = [''S1'']\<rparr>"

definition mock_world :: world where
  "mock_world =
     \<lparr>files = [(obs_path, BiomFile mock_observed_table), (rich_path, BiomFile mock_rich_table),
               (exp_path, BiomFile mock_expected_table)],
      dirs = [''/r'', ''/e''],
      glob = (\<lambda>pat. if pat = ''/r/*/*/*/*/table*biom'' then [rich_path, obs_path]
                     else if pat = ''/e/*/*/expected/table.L6-taxa.biom'' then [exp_path]
                     else [])\<rparr>"

definition mock_collaborators :: collaborators where
  "mock_collaborators =
     \<lparr>list_of_set = list_among [''A'', ''A;B'', ''A;C''],
      pearsonr = (\<lambda>x y. Inr (1, 0)),
      spearmanr = (\<lambda>x y. Inr (1, 0)),
      shuffle = rev\<rparr>"

definition uclust_located :: located where
  "uclust_located = (''mock-1'', ''gg'', ''uclust'', ''0.8:0.97:3'', obs_path)"

definition rdp_located :: located where
  "rdp_located = (''mock-1'', ''gg'', ''rdp'', ''0.5'', rich_path)"

definition mock_lookup :: "((string \<times> string) \<times> string) list" where
  "mock_lookup = [((''mock-1'', ''gg''), exp_path)]"

definition full_score_row :: "string \<Rightarrow> string \<Rightarrow> (string \<times> param_value list) list \<Rightarrow> result_row" where
  "full_score_row method params cols =
     \<lparr>Dataset = ''mock-1'', Level = 0, SampleID = ''S1'', Reference = ''gg'', Method = method,
      Parameters = params, Precision = 1, Recall = 1, F_measure = 1, Pearson_r = 1,
      Pearson_p = 0, Spearman_r = 1, Spearman_p = 0, param_columns = cols\<rparr>"

definition memo_world :: world where
  "memo_world = to_csv mock_world ''/out.tsv'' three_scores"

section \<open>Properties of the metric engine\<close>

subsection \<open>Auxiliary facts\<close>

lemma split_ws_concat: "concat (split_ws w cs) = w @ filter (\<lambda>c. \<not> isspace c) cs"
  by (induction cs arbitrary: w) auto

lemma remove_whitespace_filter: "remove_whitespace s = filter (\<lambda>c. \<not> isspace c) s"
  by (simp add: remove_whitespace_def py_split_ws_def split_ws_concat)

lemma position_Some: "x \<in> set ids \<Longrightarrow> \<exists>i. position ids x = Some i"
  by (induction ids) auto

lemma position_bound: "position ids x = Some i \<Longrightarrow> i < length ids"
  by (induction ids arbitrary: i) (auto split: if_splits)

lemma position_None: "x \<notin> set ids \<Longrightarrow> position ids x = None"
  by (induction ids) auto

lemma index_known: "x \<in> set ids \<Longrightarrow> \<exists>i. index ids x = Inr i \<and> i < length ids"
  using position_Some [of x ids] position_bound [of ids x] by (auto simp: index_def)

lemma index_bound: "index ids x = Inr i \<Longrightarrow> i < length ids"
  by (auto simp: index_def dest: position_bound split: option.splits)

lemma index_unknown: "x \<notin> set ids \<Longrightarrow> index ids x = Inl UnknownIDError"
  by (simp add: index_def position_None)

lemma get_value_by_ids_known:
  assumes "oid \<in> set (observation_ids t)" and "sid \<in> set (sample_ids t)"
  shows "\<exists>v. get_value_by_ids t oid sid = Inr v"
proof -
  from assms(1) obtain i where i: "index (observation_ids t) oid = Inr i" "i < length (observations t)"
    using index_known [of oid "observation_ids t"] by (auto simp: observation_ids_def)
  from assms(2) obtain j where j: "index (sample_ids t) sid = Inr j" "j < length (sample_ids t)"
    using index_known by blast
  from assms have "\<not> is_empty t"
    by (auto simp: is_empty_def observation_ids_def)
  with i j show ?thesis
    by (simp add: get_value_by_ids_def getitem_def)
qed

lemma observed_loop_result:
  assumes "set ids \<subseteq> set (observation_ids t)" and "sid \<in> set (sample_ids t)"
  shows "observed_loop t sid ws result ids =
           Inr (result @ map (if ws then remove_whitespace else id)
                           (filter (\<lambda>oid. \<exists>v. get_value_by_ids t oid sid = Inr v \<and> v > 0) ids))"
  using assms(1)
proof (induction ids arbitrary: result)
  case Nil
  then show ?case by simp
next
  case (Cons oid ids)
  then obtain v where v: "get_value_by_ids t oid sid = Inr v"
    using get_value_by_ids_known [of oid t sid] assms(2) by auto
  from Cons have "set ids \<subseteq> set (observation_ids t)" by simp
  note IH = Cons.IH [OF this]
  show ?case
    by (cases "v > 0") (simp_all add: v IH)
qed

lemma get_observed_known:
  assumes "default_sample t sample_id = Inr sid" and "sid \<in> set (sample_ids t)"
  shows "get_observed_observation_ids t sample_id ws_strip =
           Inr ((if ws_strip then remove_whitespace else id) `
                  {oid \<in> set (observation_ids t). \<exists>v. get_value_by_ids t oid sid = Inr v \<and> v > 0})"
proof -
  have "observed_loop t sid ws_strip [] (observation_ids t) =
      Inr (map (if ws_strip then remove_whitespace else id)
         (filter (\<lambda>oid. \<exists>v. get_value_by_ids t oid sid = Inr v \<and> v > 0) (observation_ids t)))"
    using observed_loop_result [of "observation_ids t" t sid ws_strip "[]"] assms(2) by simp
  then show ?thesis
    by (simp add: get_observed_observation_ids_def assms(1))
qed

lemma get_observed_finite:
  "get_observed_observation_ids t sample_id ws = Inr A \<Longrightarrow> finite A"
  by (auto simp: get_observed_observation_ids_def split: sum.splits)

lemma get_value_by_ids_error:
  "get_value_by_ids t oid sid = Inl e \<Longrightarrow> e = UnknownIDError \<or> e = IndexError"
  by (auto simp: get_value_by_ids_def index_def getitem_def
      split: sum.splits option.splits if_splits)

lemma observed_loop_error:
  "observed_loop t sid ws result ids = Inl e \<Longrightarrow> e = UnknownIDError \<or> e = IndexError"
proof (induction ids arbitrary: result)
  case Nil
  then show ?case by simp
next
  case (Cons oid ids)
  then show ?case
    by (auto dest: get_value_by_ids_error split: sum.splits)
qed

lemma true_div_nonzero: "b \<noteq> 0 \<Longrightarrow> true_div a b = Inr (a / b)"
  by (simp add: true_div_def)

lemma compute_prf_defined:
  assumes "get_observed_observation_ids actual_table actual_sample_id True = Inr A"
    and "get_observed_observation_ids expected_table expected_sample_id True = Inr E"
  shows "\<exists>res. compute_prf actual_table expected_table actual_sample_id expected_sample_id
           = Inr res"
proof (cases "card (A \<inter> E) > 0")
  case False
  then show ?thesis by (simp add: compute_prf_def assms)
next
  case True
  let ?tp = "card (A \<inter> E)"
  let ?p = "(of_nat ?tp :: rat) / of_nat (?tp + card (A - E))"
  let ?r = "(of_nat ?tp :: rat) / of_nat (?tp + card (E - A))"
  from True have "?p > 0" "?r > 0" by simp_all
  then have "?p + ?r \<noteq> 0" by simp
  with True show ?thesis
    by (simp add: compute_prf_def assms Let_def true_div_nonzero del: of_nat_add)
qed

lemma compute_prf_total:
  assumes "default_sample a sa = Inr s1" "s1 \<in> set (sample_ids a)"
    and "default_sample e se = Inr s2" "s2 \<in> set (sample_ids e)"
  shows "\<exists>res. compute_prf a e sa se = Inr res"
  using get_observed_known [OF assms(1,2), of True] get_observed_known [OF assms(3,4), of True]
  by (rule compute_prf_defined)

lemmas table_eval = get_observed_observation_ids_def default_sample_def observation_ids_def
  get_value_by_ids_def index_def getitem_def is_empty_def cell_def remove_whitespace_filter
  isspace_def

subsection \<open>The observed ids of a sample\<close>

text \<open>
  Claim C7. For a table and a sample of it (the one given, or the first sample id when
  none is given), \<open>get_observed_observation_ids\<close> returns the set of the observation
  ids whose count in that sample is strictly positive; with \<open>ws_strip\<close>, each id
  enters the set with every whitespace character removed, so that \<^verbatim>\<open>"k  __1"\<close> and
  \<^verbatim>\<open>"k__1"\<close> are one element.
\<close>

theorem get_observed_observation_ids_spec:
  assumes "default_sample t sample_id = Inr sid" and "sid \<in> set (sample_ids t)"
  shows "get_observed_observation_ids t sample_id ws_strip =
           Inr ((if ws_strip then remove_whitespace else id) `
                  {oid \<in> set (observation_ids t). \<exists>v. get_value_by_ids t oid sid = Inr v \<and> v > 0})
         \<and> remove_whitespace oid = filter (\<lambda>c. \<not> isspace c) oid
         \<and> remove_whitespace ''k  __1'' = remove_whitespace ''k__1''"
proof -
  have "remove_whitespace ''k  __1'' = remove_whitespace ''k__1''"
    by (simp add: remove_whitespace_filter isspace_def)
  with get_observed_known [OF assms] show ?thesis
    by (simp add: remove_whitespace_filter)
qed

theorem get_observed_observation_ids_spec_witness:
  "default_sample whitespace_table None = Inr ''S1'' \<and> ''S1'' \<in> set (sample_ids whitespace_table) \<and>
   get_observed_observation_ids whitespace_table None True = Inr {''k__1''} \<and>
   get_observed_observation_ids whitespace_table None False = Inr {''k  __1'', ''k__1''}"
proof -
  have d: "default_sample whitespace_table None = Inr ''S1''"
    by (simp add: whitespace_table_def default_sample_def)
  have s: "''S1'' \<in> set (sample_ids whitespace_table)"
    by (simp add: whitespace_table_def)
  have pos: "{oid \<in> set (observation_ids whitespace_table). \<exists>v. get_value_by_ids whitespace_table oid ''S1'' = Inr v \<and> v > 0}
      = {''k  __1'', ''k__1''}"
    by (auto simp: whitespace_table_def observation_ids_def get_value_by_ids_def index_def
        getitem_def is_empty_def cell_def)
  have strip: "remove_whitespace ''k  __1'' = ''k__1''" "remove_whitespace ''k__1'' = ''k__1''"
    by (simp_all add: remove_whitespace_filter isspace_def)
  have "get_observed_observation_ids whitespace_table None True
      = Inr ((if True then remove_whitespace else id) ` {''k  __1'', ''k__1''})"
    using get_observed_observation_ids_spec [OF d s, of True "[]"] unfolding pos
    by (rule conjunct1)
  then have stripped: "get_observed_observation_ids whitespace_table None True = Inr {''k__1''}"
    by (simp add: strip)
  have "get_observed_observation_ids whitespace_table None False
      = Inr ((if False then remove_whitespace else id) ` {''k  __1'', ''k__1''})"
    using get_observed_observation_ids_spec [OF d s, of False "[]"] unfolding pos
    by (rule conjunct1)
  then have "get_observed_observation_ids whitespace_table None False = Inr {''k  __1'', ''k__1''}"
    by simp
  with d s stripped show ?thesis by simp
qed

subsection \<open>Precision, recall and F-measure\<close>

text \<open>
  Claim C1. Over the whitespace-stripped observed-id sets \<open>A\<close> (actual) and \<open>E\<close>
  (expected), \<open>compute_prf\<close> returns \<open>p = tp / (tp + fp)\<close>, \<open>r = tp / (tp + fn)\<close> and
  \<open>f = 2 * p * r / (p + r)\<close> when \<open>tp > 0\<close>, where \<open>tp = |A \<inter> E|\<close>, \<open>fp = |A - E|\<close>
  and \<open>fn = |E - A|\<close>, and \<open>(0, 0, 0)\<close> when \<open>tp = 0\<close>; for disjoint sets it returns
  \<open>(0, 0, 0)\<close> and for equal non-empty sets \<open>(1, 1, 1)\<close>.
\<close>

theorem compute_prf_spec:
  assumes "get_observed_observation_ids actual_table actual_sample_id True = Inr A"
    and "get_observed_observation_ids expected_table expected_sample_id True = Inr E"
  shows "\<exists>p r f.
           compute_prf actual_table expected_table actual_sample_id expected_sample_id
             = Inr (p, r, f) \<and>
           (let tp = card (A \<inter> E); fp = card (A - E); fn = card (E - A)
            in if tp > 0
               then p = of_nat tp / of_nat (tp + fp) \<and> r = of_nat tp / of_nat (tp + fn) \<and>
                    f = (2 * p * r) / (p + r)
               else (p, r, f) = (0, 0, 0)) \<and>
           (A \<inter> E = {} \<longrightarrow> (p, r, f) = (0, 0, 0)) \<and>
           (A = E \<and> A \<noteq> {} \<longrightarrow> (p, r, f) = (1, 1, 1))"
proof -
  have fin: "finite A" "finite E"
    using assms get_observed_finite by blast+
  define tp fp fn where "tp = card (A \<inter> E)" and "fp = card (A - E)" and "fn = card (E - A)"
  show ?thesis
  proof (cases "tp > 0")
    case False
    then have tp0: "card (A \<inter> E) = 0" by (simp add: tp_def)
    have run: "compute_prf actual_table expected_table actual_sample_id expected_sample_id
        = Inr (0, 0, 0)"
      by (simp add: compute_prf_def assms tp0)
    have "A = E \<and> A \<noteq> {} \<Longrightarrow> False"
      using tp0 fin by auto
    with run tp0 show ?thesis by auto
  next
    case True
    define p r f where "p = (of_nat tp :: rat) / of_nat (tp + fp)"
      and "r = (of_nat tp :: rat) / of_nat (tp + fn)" and "f = (2 * p * r) / (p + r)"
    from True have pos: "p > 0" "r > 0"
      by (simp_all add: p_def r_def)
    then have sum: "p + r \<noteq> 0" by simp
    from True have den: "(of_nat (tp + fp) :: rat) \<noteq> 0" "(of_nat (tp + fn) :: rat) \<noteq> 0"
      by simp_all
    have d1: "true_div (of_nat tp) (of_nat (tp + fp)) = Inr p"
      using den(1) unfolding p_def by (rule true_div_nonzero)
    have d2: "true_div (of_nat tp) (of_nat (tp + fn)) = Inr r"
      using den(2) unfolding r_def by (rule true_div_nonzero)
    have d3: "true_div (2 * p * r) (p + r) = Inr f"
      using sum unfolding f_def by (rule true_div_nonzero)
    have run: "compute_prf actual_table expected_table actual_sample_id expected_sample_id
        = Inr (p, r, f)"
      unfolding compute_prf_def assms Let_def
      using True by (simp add: d1 d2 d3 del: of_nat_add flip: tp_def fp_def fn_def)
    have formula: "let tp = card (A \<inter> E); fp = card (A - E); fn = card (E - A)
            in if tp > 0
               then p = of_nat tp / of_nat (tp + fp) \<and> r = of_nat tp / of_nat (tp + fn) \<and>
                    f = (2 * p * r) / (p + r)
               else (p, r, f) = (0, 0, 0)"
      using True by (simp add: Let_def p_def r_def f_def flip: tp_def fp_def fn_def)
    have disjoint: "A \<inter> E = {} \<longrightarrow> (p, r, f) = (0, 0, 0)"
      using True by (auto simp: tp_def)
    have equal: "A = E \<and> A \<noteq> {} \<longrightarrow> (p, r, f) = (1, 1, 1)"
    proof
      assume h: "A = E \<and> A \<noteq> {}"
      then have "fp = 0" "fn = 0" by (simp_all add: fp_def fn_def)
      with True have "p = 1" "r = 1" by (simp_all add: p_def r_def)
      then show "(p, r, f) = (1, 1, 1)" by (simp add: f_def)
    qed
    from run formula disjoint equal show ?thesis
      by (intro exI [of _ p] exI [of _ r] exI [of _ f] conjI)
  qed
qed

text \<open>No division of \<open>compute_prf\<close> is by zero: it raises no ZeroDivisionError.\<close>

lemma compute_prf_no_zero_division:
  "compute_prf actual_table expected_table actual_sample_id expected_sample_id
     \<noteq> Inl ZeroDivisionError"
proof (cases "get_observed_observation_ids actual_table actual_sample_id True")
  case (Inl e)
  then have "e \<noteq> ZeroDivisionError"
    by (auto simp: get_observed_observation_ids_def default_sample_def
        dest: observed_loop_error split: sum.splits option.splits list.splits)
  with Inl show ?thesis by (simp add: compute_prf_def)
next
  case A: (Inr A)
  show ?thesis
  proof (cases "get_observed_observation_ids expected_table expected_sample_id True")
    case (Inl e)
    then have "e \<noteq> ZeroDivisionError"
      by (auto simp: get_observed_observation_ids_def default_sample_def
          dest: observed_loop_error split: sum.splits option.splits list.splits)
    with A Inl show ?thesis by (simp add: compute_prf_def)
  next
    case E: (Inr E)
    from compute_prf_defined [OF A E] show ?thesis by auto
  qed
qed

theorem compute_prf_spec_witness:
  "get_observed_observation_ids whitespace_table (Some ''S1'') True = Inr {''k__1''} \<and>
   get_observed_observation_ids whitespace_table (Some ''S2'') True = Inr {''k__2'', ''k__1''} \<and>
   compute_prf whitespace_table whitespace_table (Some ''S1'') (Some ''S2'') = Inr (1, 1/2, 2/3)"
proof -
  have a: "get_observed_observation_ids whitespace_table (Some ''S1'') True = Inr {''k__1''}"
    by (simp add: whitespace_table_def table_eval)
  have e: "get_observed_observation_ids whitespace_table (Some ''S2'') True = Inr {''k__2'', ''k__1''}"
    by (simp add: whitespace_table_def table_eval)
  have sets: "card ({''k__1''} \<inter> {''k__2'', ''k__1''}) = 1"
    "card ({''k__1''} - {''k__2'', ''k__1''}) = 0"
    "card ({''k__2'', ''k__1''} - {''k__1''}) = 1"
    by simp_all
  obtain p r f where run: "compute_prf whitespace_table whitespace_table (Some ''S1'') (Some ''S2'') = Inr (p, r, f)"
    and formula: "let tp = card ({''k__1''} \<inter> {''k__2'', ''k__1''});
                      fp = card ({''k__1''} - {''k__2'', ''k__1''});
                      fn = card ({''k__2'', ''k__1''} - {''k__1''})
            in if tp > 0
               then p = of_nat tp / of_nat (tp + fp) \<and> r = of_nat tp / of_nat (tp + fn) \<and>
                    f = (2 * p * r) / (p + r)
               else (p, r, f) = (0, 0, 0)"
    using compute_prf_spec [OF a e] by blast
  from formula have pr: "p = 1" "r = 1 / 2" and f: "f = (2 * p * r) / (p + r)"
    unfolding sets Let_def by simp_all
  have "p = 1 \<and> r = 1 / 2 \<and> f = 2 / 3"
    unfolding f pr by simp
  with run a e show ?thesis by simp
qed

subsection \<open>Aligned abundance vectors\<close>

lemma sample_idx_default:
  assumes "default_sample t sample_id = Inr sid" and "sid \<in> set (sample_ids t)"
  shows "\<exists>j. sample_idx t sample_id = Inr j \<and> index (sample_ids t) sid = Inr j"
proof (cases sample_id)
  case None
  with assms(1) obtain rest where "sample_ids t = sid # rest"
    by (auto simp: default_sample_def split: list.splits)
  with None show ?thesis by (simp add: sample_idx_def index_def)
next
  case (Some s)
  with assms(1) have "s = sid" by (simp add: default_sample_def)
  with Some assms(2) show ?thesis
    using index_known [of sid "sample_ids t"] by (auto simp: sample_idx_def)
qed

lemma value_or_zero_count:
  assumes "index (sample_ids t) sid = Inr j"
  shows "value_or_zero t oid j = Inr (count_or_zero t sid oid)"
proof (cases "oid \<in> set (observation_ids t)")
  case True
  then obtain i where i: "index (observation_ids t) oid = Inr i" "i < length (observations t)"
    using index_known [of oid "observation_ids t"] by (auto simp: observation_ids_def)
  from assms have j: "j < length (sample_ids t)" by (rule index_bound)
  with i have "\<not> is_empty t"
    by (auto simp: is_empty_def)
  with i j show ?thesis
    by (simp add: value_or_zero_def count_or_zero_def get_value_by_ids_def assms getitem_def)
next
  case False
  then show ?thesis
    by (simp add: value_or_zero_def count_or_zero_def get_value_by_ids_def index_unknown)
qed

lemma vectors_loop_maps:
  assumes "index (sample_ids a) s1 = Inr ai" and "index (sample_ids e) s2 = Inr ei"
  shows "vectors_loop a e ai ei av ev ids
         = Inr (av @ map (count_or_zero a s1) ids, ev @ map (count_or_zero e s2) ids)"
  by (induction ids arbitrary: av ev)
     (simp_all add: value_or_zero_count [OF assms(1)] value_or_zero_count [OF assms(2)])

text \<open>
  Claim C6. For two tables and a sample of each, \<open>get_actual_and_expected_vectors\<close>
  returns two vectors of the same length, the size of the union of the two observed-id
  sets (taken without whitespace stripping). Both follow the one listing of the union:
  entry \<open>i\<close> of a vector is the count of id \<open>i\<close> in that table's sample, and it is 0
  when the table does not have the id or has a zero count for it.
\<close>

theorem get_actual_and_expected_vectors_aligned:
  assumes "default_sample a sa = Inr s1" and "s1 \<in> set (sample_ids a)"
    and "default_sample e se = Inr s2" and "s2 \<in> set (sample_ids e)"
    and "get_observed_observation_ids a sa False = Inr A"
    and "get_observed_observation_ids e se False = Inr E"
    and "set (list_of (A \<union> E)) = A \<union> E" and "distinct (list_of (A \<union> E))"
  shows "\<exists>av ev.
           get_actual_and_expected_vectors list_of a e sa se = Inr (av, ev) \<and>
           length av = length ev \<and> length av = card (A \<union> E) \<and>
           av = map (count_or_zero a s1) (list_of (A \<union> E)) \<and>
           ev = map (count_or_zero e s2) (list_of (A \<union> E)) \<and>
           (\<forall>i < length av.
              (list_of (A \<union> E) ! i \<notin> set (observation_ids a) \<or>
               get_value_by_ids a (list_of (A \<union> E) ! i) s1 = Inr 0 \<longrightarrow> av ! i = 0) \<and>
              (list_of (A \<union> E) ! i \<notin> set (observation_ids e) \<or>
               get_value_by_ids e (list_of (A \<union> E) ! i) s2 = Inr 0 \<longrightarrow> ev ! i = 0))"
proof -
  let ?ids = "list_of (A \<union> E)"
  obtain ai where ai: "sample_idx a sa = Inr ai" "index (sample_ids a) s1 = Inr ai"
    using sample_idx_default [OF assms(1,2)] by blast
  obtain ei where ei: "sample_idx e se = Inr ei" "index (sample_ids e) s2 = Inr ei"
    using sample_idx_default [OF assms(3,4)] by blast
  have run: "get_actual_and_expected_vectors list_of a e sa se
      = Inr (map (count_or_zero a s1) ?ids, map (count_or_zero e s2) ?ids)"
    by (simp add: get_actual_and_expected_vectors_def assms(5,6) ai(1) ei(1) Let_def
        vectors_loop_maps [OF ai(2) ei(2)])
  have len: "length ?ids = card (A \<union> E)"
    using distinct_card [OF assms(8)] assms(7) by simp
  have za: "count_or_zero a s1 oid = 0"
    if "oid \<notin> set (observation_ids a) \<or> get_value_by_ids a oid s1 = Inr 0" for oid
    using that by (auto simp: count_or_zero_def get_value_by_ids_def index_unknown)
  have ze: "count_or_zero e s2 oid = 0"
    if "oid \<notin> set (observation_ids e) \<or> get_value_by_ids e oid s2 = Inr 0" for oid
    using that by (auto simp: count_or_zero_def get_value_by_ids_def index_unknown)
  show ?thesis
    unfolding run using len za ze by simp
qed


theorem get_actual_and_expected_vectors_aligned_witness:
  "default_sample actual_counts None = Inr ''S1'' \<and> ''S1'' \<in> set (sample_ids actual_counts) \<and>
   default_sample expected_counts (Some ''S1'') = Inr ''S1'' \<and> ''S1'' \<in> set (sample_ids expected_counts) \<and>
   get_observed_observation_ids actual_counts None False = Inr {''A;B'', ''A;C''} \<and>
   get_observed_observation_ids expected_counts (Some ''S1'') False = Inr {''A;B'', ''A;E''} \<and>
   list_among [''A;B'', ''A;C'', ''A;D'', ''A;E''] ({''A;B'', ''A;C''} \<union> {''A;B'', ''A;E''})
     = [''A;B'', ''A;C'', ''A;E''] \<and>
   get_actual_and_expected_vectors (list_among [''A;B'', ''A;C'', ''A;D'', ''A;E''])
       actual_counts expected_counts None (Some ''S1'')
     = Inr ([3, 1, 0], [1, 0, 2])"
proof -
  let ?l = "list_among [''A;B'', ''A;C'', ''A;D'', ''A;E'']"
  have h1: "default_sample actual_counts None = Inr ''S1''" by (simp add: actual_counts_def default_sample_def)
  have h2: "''S1'' \<in> set (sample_ids actual_counts)" by (simp add: actual_counts_def)
  have h3: "default_sample expected_counts (Some ''S1'') = Inr ''S1''" by (simp add: default_sample_def)
  have h4: "''S1'' \<in> set (sample_ids expected_counts)" by (simp add: expected_counts_def)
  have h5: "get_observed_observation_ids actual_counts None False = Inr {''A;B'', ''A;C''}"
    by (simp add: actual_counts_def table_eval)
  have h6: "get_observed_observation_ids expected_counts (Some ''S1'') False = Inr {''A;B'', ''A;E''}"
    by (simp add: expected_counts_def table_eval)
  have l: "?l ({''A;B'', ''A;C''} \<union> {''A;B'', ''A;E''}) = [''A;B'', ''A;C'', ''A;E'']"
    by (simp add: list_among_def)
  have h7: "set (?l ({''A;B'', ''A;C''} \<union> {''A;B'', ''A;E''})) = {''A;B'', ''A;C''} \<union> {''A;B'', ''A;E''}"
    unfolding l by auto
  have h8: "distinct (?l ({''A;B'', ''A;C''} \<union> {''A;B'', ''A;E''}))"
    unfolding l by simp
  have c: "map (count_or_zero actual_counts ''S1'') [''A;B'', ''A;C'', ''A;E''] = [3, 1, 0]"
    "map (count_or_zero expected_counts ''S1'') [''A;B'', ''A;C'', ''A;E''] = [1, 0, 2]"
    by (simp_all add: count_or_zero_def actual_counts_def expected_counts_def table_eval)
  from get_actual_and_expected_vectors_aligned [where list_of = ?l, OF h1 h2 h3 h4 h5 h6 h7 h8]
  have "get_actual_and_expected_vectors ?l actual_counts expected_counts None (Some ''S1'') = Inr ([3, 1, 0], [1, 0, 2])"
    unfolding l c by blast
  with h1 h2 h3 h4 h5 h6 l show ?thesis by simp
qed

section \<open>Properties of the table loader\<close>

subsection \<open>The taxonomy collapser\<close>

lemma slice_to_nonneg: "0 \<le> n \<Longrightarrow> slice_to xs n = take (nat n) xs"
  by (simp add: slice_to_def)

lemmas string_eval = py_split_def py_strip_def isspace_def slice_to_def startswith_def

text \<open>
  Claim C10. For a level \<open>L \<ge> 0\<close> and an observation whose taxonomy annotation is a
  \<^verbatim>\<open>';'\<close>-delimited string or a sequence of rank strings, the collapse function
  returns a value (it raises nothing): the \<^verbatim>\<open>';'\<close>-join of the first \<open>L + 1\<close>
  whitespace-stripped ranks, which is the join of all of them when there are at most
  \<open>L + 1\<close>.
\<close>

theorem get_taxonomy_collapser_total:
  assumes "0 \<le> level" and "map_of d md_key = Some v" and "v \<noteq> MdNone"
  shows "get_taxonomy_collapser level md_key id' (Some d)
           = Inr (py_join '';'' (take (nat level + 1) (stripped_ranks v))) \<and>
         (length (stripped_ranks v) \<le> nat level + 1 \<longrightarrow>
            get_taxonomy_collapser level md_key id' (Some d)
              = Inr (py_join '';'' (stripped_ranks v)))"
proof -
  from assms(1) have n: "nat (level + 1) = nat level + 1" by simp
  have "get_taxonomy_collapser level md_key id' (Some d)
           = Inr (py_join '';'' (take (nat level + 1) (stripped_ranks v)))"
    using assms by (cases v) (simp_all add: get_taxonomy_collapser_def stripped_ranks_def
        slice_to_nonneg n del: One_nat_def)
  then show ?thesis by simp
qed

theorem get_taxonomy_collapser_total_witness:
  "(0::int) \<le> 1 \<and> map_of [(''taxonomy'', MdStr ''A; B ;C'')] ''taxonomy'' = Some (MdStr ''A; B ;C'') \<and>
   MdStr ''A; B ;C'' \<noteq> MdNone \<and>
   get_taxonomy_collapser 1 ''taxonomy'' ''x'' (Some [(''taxonomy'', MdStr ''A; B ;C'')]) = Inr ''A;B'' \<and>
   length (stripped_ranks (MdSeq [''A '', ''B''])) \<le> nat 6 + 1 \<and>
   get_taxonomy_collapser 6 ''taxonomy'' ''x'' (Some [(''taxonomy'', MdSeq [''A '', ''B''])]) = Inr ''A;B''"
proof -
  have r1: "stripped_ranks (MdStr ''A; B ;C'') = [''A'', ''B'', ''C'']"
    by (simp add: stripped_ranks_def string_eval)
  have r2: "stripped_ranks (MdSeq [''A '', ''B'']) = [''A'', ''B'']"
    by (simp add: stripped_ranks_def string_eval)
  have "get_taxonomy_collapser 1 ''taxonomy'' ''x'' (Some [(''taxonomy'', MdStr ''A; B ;C'')])
      = Inr (py_join '';'' (take (nat 1 + 1) (stripped_ranks (MdStr ''A; B ;C''))))"
    using get_taxonomy_collapser_total [of 1 "[(''taxonomy'', MdStr ''A; B ;C'')]" "''taxonomy''"
        "MdStr ''A; B ;C''" "''x''"]
    by simp
  then have a: "get_taxonomy_collapser 1 ''taxonomy'' ''x'' (Some [(''taxonomy'', MdStr ''A; B ;C'')])
      = Inr ''A;B''"
    unfolding r1 by simp
  have "get_taxonomy_collapser 6 ''taxonomy'' ''x'' (Some [(''taxonomy'', MdSeq [''A '', ''B''])])
      = Inr (py_join '';'' (stripped_ranks (MdSeq [''A '', ''B''])))"
    using get_taxonomy_collapser_total [of 6 "[(''taxonomy'', MdSeq [''A '', ''B''])]" "''taxonomy''"
        "MdSeq [''A '', ''B'']" "''x''"] r2
    by simp
  then have b: "get_taxonomy_collapser 6 ''taxonomy'' ''x'' (Some [(''taxonomy'', MdSeq [''A '', ''B''])])
      = Inr ''A;B''"
    unfolding r2 by simp
  from a b r2 show ?thesis by simp
qed

subsection \<open>The observation filter\<close>







section \<open>Properties of the aggregation layer\<close>

















text \<open>The same example, evaluated.\<close>

lemma get_sample_to_top_params_example:
  "get_sample_to_top_params three_scores F_measure SampleID Dataset
     = [((''mock-1'', ''S1''), [(''M'', [''p1'', ''p2''])])]"
  by (simp add: get_sample_to_top_params_def sort_values_desc_def three_scores_def score_row_def
      unique_def top_params_def series_max_def series_mad_def mad_def mean_def)

section \<open>Properties of the orchestrator\<close>

subsection \<open>Parameter decoding\<close>

lemma decode_token_fold:
  "fold (\<lambda>e v'. case float_of_char e of Some x \<Rightarrow> v' @ [PNum x] | None \<Rightarrow> v' @ [PStr [e]]) v acc
   = acc @ map (\<lambda>e. case float_of_char e of Some x \<Rightarrow> PNum x | None \<Rightarrow> PStr [e]) v"
  by (induction v arbitrary: acc) (simp_all split: option.splits)

lemma decode_token_map:
  "decode_token v = map (\<lambda>e. case float_of_char e of Some x \<Rightarrow> PNum x | None \<Rightarrow> PStr [e]) v"
  by (simp add: decode_token_def decode_token_fold)

text \<open>
  Claim C2 asks that each \<^verbatim>\<open>':'\<close>-separated token of the parameter id be decoded as
  one value, a number if it parses and the raw token otherwise, and bound to the schema
  name of its position. The names are bound in order, but the decoding loop runs over
  the characters of the token: the value bound to a name is a list with one entry per
  character, each digit as a number and every other character as a string. The token
  \<^verbatim>\<open>0.8\<close> of the method \<^verbatim>\<open>rdp\<close> becomes \<^verbatim>\<open>[0.0, '.', 8.0]\<close>, and the run
  over the one located result of \<open>mock_world\<close> shows the same in the results table.
\<close>

theorem compute_mock_results_decodes_characters:
  "length (decode_token v) = length v \<and>
   decode_params [''confidence''] ''0.8'' = [(''confidence'', [PNum 0, PStr ''.'', PNum 8])] \<and>
   fst (compute_mock_results mock_world mock_collaborators [uclust_located] mock_lookup
          ''/out.tsv'' [0] 0 None ''taxonomy'' None)
     = Inr [full_score_row ''uclust'' ''0.8:0.97:3''
              [(''min consensus fraction'', [PNum 0, PStr ''.'', PNum 8]),
               (''similarity'', [PNum 0, PStr ''.'', PNum 9, PNum 7]),
               (''max accepts'', [PNum 3])]]"
proof -
  have "decode_params [''confidence''] ''0.8'' = [(''confidence'', [PNum 0, PStr ''.'', PNum 8])]"
    by code_simp
  moreover have "fst (compute_mock_results mock_world mock_collaborators [uclust_located] mock_lookup
          ''/out.tsv'' [0] 0 None ''taxonomy'' None)
     = Inr [full_score_row ''uclust'' ''0.8:0.97:3''
              [(''min consensus fraction'', [PNum 0, PStr ''.'', PNum 8]),
               (''similarity'', [PNum 0, PStr ''.'', PNum 9, PNum 7]),
               (''max accepts'', [PNum 3])]]"
    by code_simp
  ultimately show ?thesis by (simp add: decode_token_map)
qed

subsection \<open>The caller's parameter names\<close>

text \<open>
  Claim C3 asks that the parameter names given as \<^verbatim>\<open>new_param_ids\<close> replace or
  extend the built-in names. \<open>compute_mock_results\<close> rebinds the name to an empty
  dictionary before it updates the built-in names, so the result never depends on the
  argument: names given for \<^verbatim>\<open>rdp\<close> leave the column \<^verbatim>\<open>confidence\<close> in place, and
  names given for a method that has no built-in entry leave the KeyError of the lookup.
\<close>

theorem compute_mock_results_ignores_new_param_ids:
  "compute_mock_results w c result_tables expected_table_lookup results_fp taxonomy_level_range
       min_count taxa_to_keep md_key new_param_ids
     = compute_mock_results w c result_tables expected_table_lookup results_fp
         taxonomy_level_range min_count taxa_to_keep md_key None \<and>
   fst (compute_mock_results mock_world mock_collaborators [rdp_located, uclust_located]
          mock_lookup ''/out.tsv'' [0] 0 None ''taxonomy'' (Some [(''rdp'', [''threshold''])]))
     = Inr [full_score_row ''rdp'' ''0.5'' [(''confidence'', [PNum 0, PStr ''.'', PNum 5])],
            full_score_row ''uclust'' ''0.8:0.97:3''
              [(''min consensus fraction'', [PNum 0, PStr ''.'', PNum 8]),
               (''similarity'', [PNum 0, PStr ''.'', PNum 9, PNum 7]),
               (''max accepts'', [PNum 3])]] \<and>
   fst (compute_mock_results mock_world mock_collaborators
          [(''mock-1'', ''gg'', ''naive-bayes'', ''0.5'', rich_path)] mock_lookup
          ''/out.tsv'' [0] 0 None ''taxonomy'' (Some [(''naive-bayes'', [''confidence''])]))
     = Inl KeyError"
proof -
  have "fst (compute_mock_results mock_world mock_collaborators [rdp_located, uclust_located]
          mock_lookup ''/out.tsv'' [0] 0 None ''taxonomy'' (Some [(''rdp'', [''threshold''])]))
     = Inr [full_score_row ''rdp'' ''0.5'' [(''confidence'', [PNum 0, PStr ''.'', PNum 5])],
            full_score_row ''uclust'' ''0.8:0.97:3''
              [(''min consensus fraction'', [PNum 0, PStr ''.'', PNum 8]),
               (''similarity'', [PNum 0, PStr ''.'', PNum 9, PNum 7]),
               (''max accepts'', [PNum 3])]]"
    by code_simp
  moreover have "fst (compute_mock_results mock_world mock_collaborators
          [(''mock-1'', ''gg'', ''naive-bayes'', ''0.5'', rich_path)] mock_lookup
          ''/out.tsv'' [0] 0 None ''taxonomy'' (Some [(''naive-bayes'', [''confidence''])]))
     = Inl KeyError"
    by code_simp
  ultimately show ?thesis by (simp add: compute_mock_results_def)
qed

subsection \<open>A table that filtering empties\<close>

text \<open>
  Under active filtering the table that goes on to the collapse is the filtered one.
\<close>

lemma mount_observations_filtered:
  assumes "load_table w table_fp = Inr loaded"
    and "min_count > 0" and "taxa_to_keep = Some allowlist"
    and "filter_table loaded min_count (Some taxonomy_level) taxa_to_keep md_key = Inr filtered"
    and "\<not> is_empty filtered"
  shows "mount_observations w table_fp min_count taxonomy_level taxa_to_keep md_key normalize' True
         = (case collapse (get_taxonomy_collapser taxonomy_level md_key) filtered of
              Inl e \<Rightarrow> Inl e
            | Inr collapsed \<Rightarrow> Inr (if normalize' then norm_samples collapsed else collapsed))"
  using assms by (simp add: mount_observations_def)






subsection \<open>Reuse of the persisted results\<close>

lemma path_exists_to_csv:
  "path_exists w p \<Longrightarrow> path_exists (to_csv w results_fp result) p"
  by (auto simp: path_exists_def to_csv_def update_conv')

lemma path_exists_written: "path_exists (to_csv w results_fp result) results_fp"
  by (simp add: path_exists_def to_csv_def update_conv')

lemma from_csv_written: "from_csv (to_csv w results_fp result) results_fp = Inr result"
  by (simp add: from_csv_def to_csv_def update_conv')

lemma find_to_csv:
  "find_and_process_result_tables (to_csv w results_fp result) d
   = find_and_process_result_tables w d"
  by (simp add: find_and_process_result_tables_def to_csv_def)

lemma seek_results_loop_to_csv:
  "seek_results_loop w acc ds = Inr found
   \<Longrightarrow> seek_results_loop (to_csv w results_fp result) acc ds = Inr found"
  by (induction ds arbitrary: acc) (auto simp: find_to_csv path_exists_to_csv split: if_splits)

lemma seek_results_to_csv:
  "seek_results w ds = Inr found \<Longrightarrow> seek_results (to_csv w results_fp result) ds = Inr found"
  by (simp add: seek_results_def seek_results_loop_to_csv)

lemma evaluate_results_cached:
  assumes "seek_results w results_dirs = Inr found" and "path_exists w results_fp" and "\<not> force"
  shows "evaluate_results w c results_dirs expected_results_dir results_fp taxonomy_level_range
           min_count taxa_to_keep md_key new_param_ids subsample size' force
         = (from_csv w results_fp, w)"
  using assms by (simp add: evaluate_results_def Let_def)

lemma compute_mock_results_written:
  assumes "compute_mock_results w c result_tables expected_table_lookup results_fp
          taxonomy_level_range min_count taxa_to_keep md_key new_param_ids = (Inr df, w')"
  shows "w' = to_csv w results_fp df"
  using assms by (auto simp: compute_mock_results_def Let_def split: sum.splits prod.splits)

lemma evaluate_results_first_run:
  assumes "evaluate_results w c results_dirs expected_results_dir results_fp taxonomy_level_range
           min_count taxa_to_keep md_key new_param_ids subsample size' force = (Inr df, w')"
  shows "\<exists>found. seek_results w' results_dirs = Inr found"
    and "path_exists w' results_fp" and "from_csv w' results_fp = Inr df"
proof -
  from assms obtain found where found: "seek_results w results_dirs = Inr found"
    by (auto simp: evaluate_results_def split: sum.splits)
  show "\<exists>found. seek_results w' results_dirs = Inr found"
    and "path_exists w' results_fp" and "from_csv w' results_fp = Inr df"
  proof (atomize (full), cases "\<not> path_exists w results_fp \<or> force")
    case True
    with assms found obtain rs el where
      "compute_mock_results w c rs el results_fp
          taxonomy_level_range min_count taxa_to_keep md_key new_param_ids = (Inr df, w')"
      by (auto simp: evaluate_results_def Let_def)
    then have "w' = to_csv w results_fp df" by (rule compute_mock_results_written)
    with found show "(\<exists>found. seek_results w' results_dirs = Inr found) \<and>
        path_exists w' results_fp \<and> from_csv w' results_fp = Inr df"
      by (simp add: seek_results_to_csv path_exists_written from_csv_written)
  next
    case False
    with assms found have "from_csv w results_fp = Inr df" "w' = w"
      by (auto simp: evaluate_results_def Let_def)
    with found False show "(\<exists>found. seek_results w' results_dirs = Inr found) \<and>
        path_exists w' results_fp \<and> from_csv w' results_fp = Inr df"
      by simp
  qed
qed

text \<open>
  Claim C8, as amended. When every results directory exists, the output path exists
  and \<open>force\<close> is false, \<open>evaluate_results\<close> computes nothing: it returns what the read
  of the output path gives and leaves the file system as it was. After any first run
  that returned a table, a run on the same directories and output path without
  \<open>force\<close> is such a read of the output path and changes nothing.
\<close>

theorem evaluate_results_memo:
  assumes "seek_results w results_dirs = Inr found" and "path_exists w results_fp" and "\<not> force"
  shows "evaluate_results w c results_dirs expected_results_dir results_fp taxonomy_level_range
           min_count taxa_to_keep md_key new_param_ids subsample size' force
         = (from_csv w results_fp, w) \<and>
         (\<forall>df w'. evaluate_results w0 c0 results_dirs expected0 results_fp levels0
                    min_count0 taxa0 md_key0 new_param_ids0 subsample0 size0 force0 = (Inr df, w')
            \<longrightarrow> evaluate_results w' c results_dirs expected_results_dir results_fp
                   taxonomy_level_range min_count taxa_to_keep md_key new_param_ids subsample
                   size' force
                 = (from_csv w' results_fp, w'))"
proof (intro conjI allI impI)
  show "evaluate_results w c results_dirs expected_results_dir results_fp taxonomy_level_range
           min_count taxa_to_keep md_key new_param_ids subsample size' force
         = (from_csv w results_fp, w)"
    using assms by (rule evaluate_results_cached)
next
  fix df w'
  assume first: "evaluate_results w0 c0 results_dirs expected0 results_fp levels0
                    min_count0 taxa0 md_key0 new_param_ids0 subsample0 size0 force0 = (Inr df, w')"
  from evaluate_results_first_run [OF first] obtain found' where
    "seek_results w' results_dirs = Inr found'" "path_exists w' results_fp"
    by blast
  then show "evaluate_results w' c results_dirs expected_results_dir results_fp
                   taxonomy_level_range min_count taxa_to_keep md_key new_param_ids subsample
                   size' force
                 = (from_csv w' results_fp, w')"
    using assms(3) by (rule evaluate_results_cached)
qed

theorem evaluate_results_memo_witness:
  "seek_results memo_world [''/r''] = Inr [rdp_located, uclust_located] \<and>
   path_exists memo_world ''/out.tsv'' \<and>
   evaluate_results memo_world mock_collaborators [''/r''] ''/e'' ''/out.tsv'' [0] 0 None
       ''taxonomy'' None False 10 False
     = (Inr three_scores, memo_world)"
proof -
  have s: "seek_results memo_world [''/r''] = Inr [rdp_located, uclust_located]"
    by code_simp
  have p: "path_exists memo_world ''/out.tsv''"
    by code_simp
  have n: "\<not> False" by simp
  have f: "from_csv memo_world ''/out.tsv'' = Inr three_scores"
    by code_simp
  have "evaluate_results memo_world mock_collaborators [''/r''] ''/e'' ''/out.tsv'' [0] 0 None
       ''taxonomy'' None False 10 False
     = (from_csv memo_world ''/out.tsv'', memo_world)"
    using evaluate_results_memo [OF s p n] by (rule conjunct1)
  with s p f show ?thesis by simp
qed

text \<open>
  Without the condition on the directories the claim fails: the assertion of
  \<open>seek_results\<close> comes before the look at the output path, so a results directory that
  does not exist ends the call although the persisted table is there.
\<close>

theorem evaluate_results_missing_dir_counterexample:
  "path_exists memo_world ''/out.tsv'' \<and>
   from_csv memo_world ''/out.tsv'' = Inr three_scores \<and>
   fst (evaluate_results memo_world mock_collaborators [''/missing''] ''/e'' ''/out.tsv'' [0] 0
          None ''taxonomy'' None False 10 False)
     = Inl AssertionError"
  by code_simp

end
